theory Spec2Isabelle
  imports Main "HOL-Library.Word" "HOL-Library.Signed_Division"
begin

section \<open>The Caesar cipher of \<^verbatim>\<open>abc.cpp\<close>\<close>

text \<open>
  The program consists of one function, \<^verbatim>\<open>encryptCaesarCipher\<close>, and a \<^verbatim>\<open>main\<close> that
  reads a line and a key, calls the function and prints the result. A \<^verbatim>\<open>std::string\<close> is a
  sequence of bytes, modelled as \<^typ>\<open>string\<close>; the C++ \<^verbatim>\<open>int\<close> is a 32-bit machine integer,
  modelled as \<^typ>\<open>32 word\<close> and read as two's complement by \<^const>\<open>sint\<close>.
\<close>

subsection \<open>Machine integers and characters\<close>

type_synonym c_int = "32 word"

text \<open>
  The classification functions of \<^verbatim>\<open><cctype>\<close> in the \<^verbatim>\<open>"C"\<close> locale, which is the locale in
  effect since the program never calls \<^verbatim>\<open>setlocale\<close>: the upper-case letters are exactly
  \<^verbatim>\<open>A\<close> to \<^verbatim>\<open>Z\<close>, the lower-case letters exactly \<^verbatim>\<open>a\<close> to \<^verbatim>\<open>z\<close>, and the alphabetic
  characters are those for which one of the two holds.
\<close>

definition isupper :: "char \<Rightarrow> bool" where
  "isupper c = ((65::nat) \<le> of_char c \<and> of_char c \<le> (90::nat))"

definition islower :: "char \<Rightarrow> bool" where
  "islower c = ((97::nat) \<le> of_char c \<and> of_char c \<le> (122::nat))"

definition isalpha :: "char \<Rightarrow> bool" where
  "isalpha c = (isupper c \<or> islower c)"

text \<open>
  The integer promotion of a \<^verbatim>\<open>char\<close> that takes part in arithmetic. The function below only
  promotes letters, whose values are the same whether \<^verbatim>\<open>char\<close> is signed or unsigned.
\<close>

definition int_of_char :: "char \<Rightarrow> c_int" where
  "int_of_char c = of_char c"

text \<open>
  The conversion of an \<^verbatim>\<open>int\<close> to \<^verbatim>\<open>char\<close> in the initialisation of \<^verbatim>\<open>shiftedChar\<close>:
  the low eight bits are kept.
\<close>

definition char_of_int :: "c_int \<Rightarrow> char" where
  "char_of_int x = char_of (uint x)"

text \<open>
  The operator \<^verbatim>\<open>%\<close> on \<^verbatim>\<open>int\<close>: the quotient is truncated towards zero, so the remainder
  has the sign of the dividend. This is \<open>smod\<close> on the integers, not \<open>mod\<close>. Addition and
  subtraction on \<^typ>\<open>c_int\<close> wrap around modulo \<open>2 ^ 32\<close>, which is what the usual targets
  compute where C++ leaves signed overflow undefined.
\<close>

definition c_rem :: "c_int \<Rightarrow> c_int \<Rightarrow> c_int" where
  "c_rem a b = word_of_int (sint a smod sint b)"

subsection \<open>The function \<^verbatim>\<open>encryptCaesarCipher\<close>\<close>

text \<open>
  \<^verbatim>\<open>
  string encryptCaesarCipher(string message, int key) {
      string encryptedMessage = "";
      for (char c : message) {
          if (isalpha(c)) {
              char base = islower(c)?'a' : 'A';
              char shiftedChar =((c-base+key)%26)+base;
              encryptedMessage.push_back(shiftedChar);
          } else {
              encryptedMessage.push_back(c);
          }
      }
      return encryptedMessage;
  }
  \<close>
  The range-based loop is a recursion over the message that carries \<^verbatim>\<open>encryptedMessage\<close>
  as its accumulator; \<^verbatim>\<open>push_back\<close> appends at the end.
\<close>

fun encrypt_loop :: "string \<Rightarrow> c_int \<Rightarrow> string \<Rightarrow> string" where
  "encrypt_loop [] key encryptedMessage = encryptedMessage"
| "encrypt_loop (c # rest) key encryptedMessage =
     (if isalpha c then
        (let base = (if islower c then CHR ''a'' else CHR ''A'');
             shiftedChar =
               char_of_int (c_rem (int_of_char c - int_of_char base + key) 26 + int_of_char base)
         in encrypt_loop rest key (encryptedMessage @ [shiftedChar]))
      else encrypt_loop rest key (encryptedMessage @ [c]))"

definition encryptCaesarCipher :: "string \<Rightarrow> c_int \<Rightarrow> string" where
  "encryptCaesarCipher message key = encrypt_loop message key []"

text \<open>The character that one iteration of the loop pushes for the input character \<open>c\<close>.\<close>

definition pushed_char :: "c_int \<Rightarrow> char \<Rightarrow> char" where
  "pushed_char key c =
     (if isalpha c then
        (let base = (if islower c then CHR ''a'' else CHR ''A'')
         in char_of_int (c_rem (int_of_char c - int_of_char base + key) 26 + int_of_char base))
      else c)"

text \<open>
  The value of the expression \<^verbatim>\<open>((c-base+key)%26)+base\<close> as an \<^verbatim>\<open>int\<close>, before it
  initialises \<^verbatim>\<open>shiftedChar\<close>.
\<close>

definition shifted_int :: "char \<Rightarrow> c_int \<Rightarrow> c_int" where
  "shifted_int c key =
     (let base = (if islower c then CHR ''a'' else CHR ''A'')
      in c_rem (int_of_char c - int_of_char base + key) 26 + int_of_char base)"

text \<open>The bounds of \<^verbatim>\<open>int\<close>.\<close>

definition INT_MAX :: int where
  "INT_MAX = 2147483647"

definition INT_MIN :: int where
  "INT_MIN = - 2147483648"

text \<open>
  For a key that is not negative, no addition of the loop overflows when
  \<^verbatim>\<open>c - base + key\<close> stays below \<^verbatim>\<open>INT_MAX\<close> for every letter \<open>c\<close> of the message.
\<close>

definition in_int_range :: "string \<Rightarrow> c_int \<Rightarrow> bool" where
  "in_int_range message key =
     list_all
       (\<lambda>c. of_char c - (if islower c then of_char (CHR ''a'') else of_char (CHR ''A'')) + sint key
              \<le> INT_MAX)
       (filter isalpha message)"

subsection \<open>The transformation as the specification words it\<close>

text \<open>
  The specification asks for the normalised modulo \<^verbatim>\<open>((x % 26) + 26) % 26\<close>, where
  \<^verbatim>\<open>%\<close> may return a negative result for a negative dividend, and for the shift
  \<^verbatim>\<open>((c - base + key) mod 26 + 26) mod 26 + base\<close> of every ASCII letter, over the
  mathematical integers. The ASCII ranges are those of \<^const>\<open>islower\<close> and
  \<^const>\<open>isupper\<close>.
\<close>

definition normalized_mod26 :: "int \<Rightarrow> int" where
  "normalized_mod26 x = ((x smod 26) + 26) smod 26"

definition spec_shifted :: "char \<Rightarrow> int \<Rightarrow> int" where
  "spec_shifted c key =
     (let base = (if islower c then of_char (CHR ''a'') else of_char (CHR ''A''))
      in normalized_mod26 (of_char c - base + key) + base)"

definition transform_spec :: "string \<Rightarrow> int \<Rightarrow> string" where
  "transform_spec message key =
     map (\<lambda>c. if isalpha c then char_of (spec_shifted c key) else c) message"

subsection \<open>The function \<^verbatim>\<open>main\<close>\<close>

text \<open>
  \<^verbatim>\<open>
  int main() {
      string message;
      int key;
      cout << "Enter the message you want to encrypt: ";
      getline(cin, message);
      cout << "Enter the key value: ";
      cin >> key;
      string encryptedMessage = encryptCaesarCipher(message, key);
      cout << "Encrypted message: " << encryptedMessage << endl;
      return 0;
  }
  \<close>
  Standard input is the string of the bytes still to be read, together with the flag that
  the stream is good. The two library calls are modelled as the C++11 standard defines them
  for the classic locale.
\<close>

definition newline :: char where
  "newline = CHR 0x0A"

definition isspace :: "char \<Rightarrow> bool" where
  "isspace c = (c = CHR 0x20 \<or> ((9::nat) \<le> of_char c \<and> of_char c \<le> (13::nat)))"

definition isdigit :: "char \<Rightarrow> bool" where
  "isdigit c = ((48::nat) \<le> of_char c \<and> of_char c \<le> (57::nat))"

text \<open>
  \<^verbatim>\<open>getline(cin, message)\<close> stores the characters before the first newline and consumes
  the newline. When the input ends first, the end-of-file bit is set (and the fail bit when
  nothing at all was read), so the stream is no longer good. The result is the line, the
  remaining input and whether the stream is still good.
\<close>

definition getline :: "string \<Rightarrow> string \<times> string \<times> bool" where
  "getline input =
     (let line = takeWhile (\<lambda>c. c \<noteq> newline) input
      in case dropWhile (\<lambda>c. c \<noteq> newline) input of
           [] \<Rightarrow> (line, [], False)
         | _ # rest \<Rightarrow> (line, rest, True))"

definition digits_value :: "string \<Rightarrow> int" where
  "digits_value ds = foldl (\<lambda>acc d. 10 * acc + (of_char d - 48)) 0 ds"

definition strip_sign :: "string \<Rightarrow> string" where
  "strip_sign t =
     (case t of [] \<Rightarrow> [] | s # u \<Rightarrow> if s = CHR ''-'' \<or> s = CHR ''+'' then u else t)"

text \<open>
  \<^verbatim>\<open>cin >> key\<close>. The result is the value stored in \<^verbatim>\<open>key\<close>, if any, and whether the
  extraction failed.
  \<^item> On a stream that is not good, and when only white space is left, nothing is stored.
  \<^item> When the characters after the white space and an optional sign do not start with a
    digit, \<open>0\<close> is stored and the extraction fails.
  \<^item> When the digits denote a value outside \<^verbatim>\<open>int\<close>, the nearest bound is stored and the
    extraction fails.
  \<^item> Otherwise the value is stored.
\<close>

definition extract_int :: "string \<Rightarrow> bool \<Rightarrow> c_int option \<times> bool" where
  "extract_int input good =
     (if good then
        (let t = dropWhile isspace input in
         if t = [] then (None, True)
         else
           (let ds = takeWhile isdigit (strip_sign t);
                v = (if hd t = CHR ''-'' then - digits_value ds else digits_value ds)
            in if ds = [] then (Some 0, True)
               else if INT_MAX < v then (Some (word_of_int INT_MAX), True)
               else if v < INT_MIN then (Some (word_of_int INT_MIN), True)
               else (Some (word_of_int v), False)))
      else (None, True))"

record outcome =
  std_out :: string
  std_err :: string
  exit_status :: int

text \<open>
  The variable \<^verbatim>\<open>key\<close> is declared without an initialiser: the value \<open>key0\<close> it holds
  before the extraction is a parameter. Nothing in \<^verbatim>\<open>main\<close> tests the state of the
  stream, writes to standard error or returns anything but \<open>0\<close>.
\<close>

definition main :: "c_int \<Rightarrow> string \<Rightarrow> outcome" where
  "main key0 input =
     (let out1 = ''Enter the message you want to encrypt: '';
          (message, rest, good) = getline input;
          out2 = out1 @ ''Enter the key value: '';
          key = (case fst (extract_int rest good) of None \<Rightarrow> key0 | Some v \<Rightarrow> v);
          encryptedMessage = encryptCaesarCipher message key;
          out3 = out2 @ ''Encrypted message: '' @ encryptedMessage @ [newline]
      in \<lparr>std_out = out3, std_err = [], exit_status = 0\<rparr>)"

text \<open>The value that \<^verbatim>\<open>key\<close> holds after \<^verbatim>\<open>cin >> key\<close>.\<close>

definition key_after_extraction :: "c_int \<Rightarrow> string \<Rightarrow> c_int" where
  "key_after_extraction key0 input =
     (case getline input of (message, rest, good) \<Rightarrow>
        (case fst (extract_int rest good) of None \<Rightarrow> key0 | Some v \<Rightarrow> v))"

text \<open>
  The key token is what follows the line of the message, from the first character that is
  not white space up to the next white space. It is an integer numeral when it is an
  optional sign followed by at least one digit and nothing else.
\<close>

definition key_token :: "string \<Rightarrow> string" where
  "key_token rest = takeWhile (\<lambda>c. \<not> isspace c) (dropWhile isspace rest)"

definition integer_numeral :: "string \<Rightarrow> bool" where
  "integer_numeral t = (strip_sign t \<noteq> [] \<and> list_all isdigit (strip_sign t))"

text \<open>
  The key token cannot be parsed as an integer: the extraction fails (nothing is left to
  read, the token does not start with a digit after its optional sign, or its digits denote
  a value outside \<^verbatim>\<open>int\<close>), or the token is not an integer numeral although the extraction
  succeeds on a prefix of it, as for \<^verbatim>\<open>1.5\<close> or \<^verbatim>\<open>12abc\<close>.
\<close>

definition key_token_unparsable :: "string \<Rightarrow> bool" where
  "key_token_unparsable input =
     (case getline input of (message, rest, good) \<Rightarrow>
        snd (extract_int rest good) \<or> \<not> integer_numeral (key_token rest))"

text \<open>
  The special case of a token that does not start with a digit after its optional sign,
  read from a good stream.
\<close>

definition key_token_without_digits :: "string \<Rightarrow> bool" where
  "key_token_without_digits input =
     (case getline input of (message, rest, good) \<Rightarrow>
        good \<and> dropWhile isspace rest \<noteq> [] \<and>
        takeWhile isdigit (strip_sign (dropWhile isspace rest)) = [])"

section \<open>The loop as an elementwise map\<close>

lemma encrypt_loop_map:
  "encrypt_loop message key acc = acc @ map (pushed_char key) message"
  by (induction message arbitrary: acc) (simp_all add: pushed_char_def Let_def)

lemma encryptCaesarCipher_map:
  "encryptCaesarCipher message key = map (pushed_char key) message"
  by (simp add: encryptCaesarCipher_def encrypt_loop_map)

lemma pushed_char_non_alpha:
  "\<not> isalpha c \<Longrightarrow> pushed_char key c = c"
  by (simp add: pushed_char_def)

text \<open>Digits, punctuation, white space and the bytes above the ASCII range are no letters.\<close>

lemma non_letters:
  "\<not> isalpha (CHR ''7'')" "\<not> isalpha (CHR '','')" "\<not> isalpha (CHR '' '')"
  "(128::nat) \<le> of_char c \<Longrightarrow> \<not> isalpha c"
  by (simp_all add: isalpha_def isupper_def islower_def)

section \<open>Length, concatenation and non-alphabetic characters\<close>

text \<open>
  Claim C6. For every message and every key, the encrypted message has the length of the
  message; the empty message is encrypted to the empty message.
\<close>

theorem C6_length_preserved:
  "length (encryptCaesarCipher M K) = length M \<and> encryptCaesarCipher [] K = []"
  by (simp add: encryptCaesarCipher_map)

text \<open>
  Claim C10. The encryption of a concatenation of two messages is the concatenation of their
  encryptions under the same key.
\<close>

theorem C10_append_homomorphism:
  "encryptCaesarCipher (M1 @ M2) K = encryptCaesarCipher M1 K @ encryptCaesarCipher M2 K"
  by (simp add: encryptCaesarCipher_map)

text \<open>
  Claim C8. At every position of the message that holds a character which is not an ASCII
  letter, the encrypted message holds the same character, whatever the key.
\<close>

theorem C8_non_alpha_fixed:
  "i < length M \<Longrightarrow> \<not> isalpha (M ! i) \<Longrightarrow> encryptCaesarCipher M K ! i = M ! i"
  by (simp add: encryptCaesarCipher_map pushed_char_non_alpha)

theorem C8_non_alpha_fixed_witness:
  "1 < length ''a, b'' \<and> \<not> isalpha (''a, b'' ! 1) \<and>
   encryptCaesarCipher ''a, b'' 5 ! 1 = ''a, b'' ! 1"
proof -
  have len: "1 < length ''a, b''" by simp
  have non: "\<not> isalpha (''a, b'' ! 1)"
    by (simp add: isalpha_def isupper_def islower_def)
  from C8_non_alpha_fixed [OF len non, of 5] len non show ?thesis by simp
qed

section \<open>The arithmetic of one shifted letter\<close>

lemma smod26_nonneg: "0 \<le> x \<Longrightarrow> x smod 26 = x mod (26::int)"
  by (simp add: smod_int_alt_def sgn_if)

lemma smod26_neg: "x < 0 \<Longrightarrow> x smod 26 = - ((- x) mod (26::int))"
  by (simp add: smod_int_alt_def sgn_if)

text \<open>
  The normalised modulo is the modulo of the mathematical integers, whose result lies
  between \<open>0\<close> and \<open>25\<close> whatever the sign of \<open>x\<close>.
\<close>

lemma normalized_mod26_eq: "normalized_mod26 x = x mod 26"
proof (cases "0 \<le> x")
  case True
  then show ?thesis
    by (simp add: normalized_mod26_def smod26_nonneg)
next
  case False
  then have neg: "x < 0" by simp
  have "0 \<le> - ((- x) mod 26) + 26"
    using pos_mod_bound [of 26 "- x"] by simp
  then show ?thesis
    unfolding normalized_mod26_def smod26_neg [OF neg]
    by (simp add: smod26_nonneg mod_minus_eq)
qed

lemma normalized_mod26_range: "0 \<le> normalized_mod26 x \<and> normalized_mod26 x < 26"
  by (simp add: normalized_mod26_eq)

lemma spec_shifted_eq:
  "spec_shifted c key = (of_char c - (if islower c then 97 else 65) + key) mod 26
     + (if islower c then 97 else 65)"
  by (simp add: spec_shifted_def normalized_mod26_eq)

lemma pushed_char_shifted_int:
  "isalpha c \<Longrightarrow> pushed_char key c = char_of_int (shifted_int c key)"
  by (simp add: pushed_char_def shifted_int_def Let_def)

text \<open>A letter lies at most 25 above the base of its case.\<close>

lemma letter_offset:
  assumes "isalpha c"
  shows "0 \<le> (of_char c :: int) - (if islower c then 97 else 65) \<and>
         (of_char c :: int) - (if islower c then 97 else 65) \<le> 25"
proof -
  have "int (of_char c) = of_char c" by (rule of_nat_of_char)
  then show ?thesis
    using assms unfolding isalpha_def isupper_def islower_def by auto
qed

text \<open>
  The value of the expression for any key: the sum wraps to 32 bits (\<open>signed_take_bit 31\<close>)
  before the truncating remainder is taken.
\<close>

lemma shifted_int_word:
  "shifted_int c key =
     word_of_int
       (signed_take_bit 31 (of_char c - (if islower c then 97 else 65) + sint key) smod 26
        + (if islower c then 97 else 65))"
proof -
  define b :: int where "b = (if islower c then 97 else 65)"
  define x :: int where "x = of_char c - b + sint key"
  have base_eq: "int_of_char (if islower c then CHR ''a'' else CHR ''A'') = word_of_int b"
    by (simp add: int_of_char_def b_def)
  have char_eq: "int_of_char c = word_of_int (of_char c)"
    by (simp add: int_of_char_def of_int_of_char)
  have sum_eq: "int_of_char c - word_of_int b + key = (word_of_int x :: c_int)"
    by (simp add: char_eq x_def)
  have "sint (word_of_int x :: c_int) = signed_take_bit 31 x"
    by (simp add: sint_sbintrunc')
  moreover have "sint (26 :: c_int) = 26" by simp
  ultimately have "c_rem (word_of_int x) 26 = word_of_int (signed_take_bit 31 x smod 26)"
    by (simp only: c_rem_def)
  then have "c_rem (int_of_char c - word_of_int b + key) 26 + word_of_int b =
      word_of_int (signed_take_bit 31 x smod 26 + b)"
    by (simp only: sum_eq wi_hom_add)
  then show ?thesis
    by (simp only: shifted_int_def Let_def base_eq b_def [symmetric] x_def [symmetric])
qed

lemma char_of_int_word_of_int: "char_of_int (word_of_int y) = char_of y"
  by (simp add: char_of_int_def uint_word_of_int_eq char_of_take_bit_eq)

lemma pushed_char_value:
  "isalpha c \<Longrightarrow> pushed_char key c =
     char_of
       (signed_take_bit 31 (of_char c - (if islower c then 97 else 65) + sint key) smod 26
        + (if islower c then 97 else 65))"
  by (simp only: pushed_char_shifted_int shifted_int_word char_of_int_word_of_int)

text \<open>With a key that is not negative and a sum in range, nothing wraps and the
  truncating remainder is the modulo.\<close>

lemma no_wrap:
  assumes "isalpha c" and "0 \<le> sint key"
    and "of_char c - (if islower c then 97 else 65) + sint key \<le> INT_MAX"
  shows "signed_take_bit 31 (of_char c - (if islower c then 97 else 65) + sint key) smod 26
     = (of_char c - (if islower c then 97 else 65) + sint key) mod 26"
proof -
  define x :: int where "x = of_char c - (if islower c then 97 else 65) + sint key"
  have "0 \<le> x"
    using letter_offset [OF assms(1)] assms(2) by (simp add: x_def)
  moreover have "x < 2 ^ 31"
    using assms(3) by (simp add: x_def INT_MAX_def)
  ultimately have "signed_take_bit 31 x = x"
    by (simp add: signed_take_bit_int_eq_self)
  with \<open>0 \<le> x\<close> show ?thesis
    by (simp add: smod26_nonneg flip: x_def)
qed

lemma shifted_int_nonneg_key:
  assumes "isalpha c" and "0 \<le> sint key"
    and "of_char c - (if islower c then 97 else 65) + sint key \<le> INT_MAX"
  shows "sint (shifted_int c key) = spec_shifted c (sint key)"
proof -
  define b :: int where "b = (if islower c then 97 else 65)"
  define r :: int where "r = (of_char c - b + sint key) mod 26"
  have r: "0 \<le> r" "r < 26" by (simp_all add: r_def)
  have b: "b = 97 \<or> b = 65" by (simp add: b_def)
  have "shifted_int c key = word_of_int (r + b)"
    using no_wrap [OF assms] by (simp only: shifted_int_word b_def r_def)
  moreover have "sint (word_of_int (r + b) :: c_int) = r + b"
  proof -
    have "- (2 ^ 31) \<le> r + b" and "r + b < 2 ^ 31"
      using r b by auto
    then have "signed_take_bit 31 (r + b) = r + b"
      by (rule signed_take_bit_int_eq_self)
    moreover have "sint (word_of_int (r + b) :: c_int) = signed_take_bit 31 (r + b)"
      by (simp only: sint_sbintrunc') simp
    ultimately show ?thesis by simp
  qed
  ultimately show ?thesis
    by (simp add: spec_shifted_eq b_def r_def)
qed

lemma pushed_char_nonneg_key:
  assumes "isalpha c" and "0 \<le> sint key"
    and "of_char c - (if islower c then 97 else 65) + sint key \<le> INT_MAX"
  shows "pushed_char key c = char_of (spec_shifted c (sint key))"
  using no_wrap [OF assms] by (simp only: pushed_char_value [OF assms(1)] spec_shifted_eq)

lemma pushed_char_zero: "pushed_char 0 c = c"
proof (cases "isalpha c")
  case True
  have "of_char c - (if islower c then 97 else 65) + sint (0 :: c_int) \<le> INT_MAX"
    using letter_offset [OF True] by (simp add: INT_MAX_def)
  then have "signed_take_bit 31 (of_char c - (if islower c then 97 else 65) + sint (0 :: c_int)) smod 26
     = (of_char c - (if islower c then 97 else 65) + sint (0 :: c_int)) mod 26"
    using True by (intro no_wrap) simp_all
  then show ?thesis
    using letter_offset [OF True] by (simp add: pushed_char_value [OF True])
next
  case False
  then show ?thesis by (rule pushed_char_non_alpha)
qed

lemma encryptCaesarCipher_zero: "encryptCaesarCipher message 0 = message"
  by (simp add: encryptCaesarCipher_map pushed_char_zero map_idI)

section \<open>Keys that are not negative\<close>

text \<open>
  Claim C9. For every message and every key that is not negative, with \<^verbatim>\<open>c - base + key\<close>
  within the range of \<^verbatim>\<open>int\<close> for every letter of the message, the expression
  \<^verbatim>\<open>((c-base+key)%26)+base\<close> of the code has the value of the normalised-modulo formula
  of the specification at every letter, and the function returns what the transformation
  of the specification returns.
\<close>

theorem C9_nonneg_key_refines_spec:
  assumes "0 \<le> sint key" and "in_int_range message key"
  shows "encryptCaesarCipher message key = transform_spec message (sint key) \<and>
         list_all (\<lambda>c. sint (shifted_int c key) = spec_shifted c (sint key))
           (filter isalpha message)"
proof -
  have fits: "of_char c - (if islower c then 97 else 65) + sint key \<le> INT_MAX"
    if "c \<in> set message" and "isalpha c" for c
    using assms(2) that by (simp add: in_int_range_def list_all_iff cong: if_cong)
  have "pushed_char key c = (if isalpha c then char_of (spec_shifted c (sint key)) else c)"
    if "c \<in> set message" for c
    using that fits [of c] pushed_char_nonneg_key [of c key] assms(1)
    by (simp add: pushed_char_non_alpha)
  then have "encryptCaesarCipher message key = transform_spec message (sint key)"
    by (simp add: encryptCaesarCipher_map transform_spec_def)
  moreover have "list_all (\<lambda>c. sint (shifted_int c key) = spec_shifted c (sint key))
      (filter isalpha message)"
    using fits shifted_int_nonneg_key [OF _ assms(1)] by (simp add: list_all_iff)
  ultimately show ?thesis by simp
qed

theorem C9_nonneg_key_refines_spec_witness:
  "0 \<le> sint (3 :: c_int) \<and> in_int_range ''Hello, World!'' 3 \<and>
   encryptCaesarCipher ''Hello, World!'' 3 = transform_spec ''Hello, World!'' (sint (3 :: c_int)) \<and>
   transform_spec ''Hello, World!'' (sint (3 :: c_int)) = ''Khoor, Zruog!''"
proof -
  have nonneg: "0 \<le> sint (3 :: c_int)" by simp
  have range: "in_int_range ''Hello, World!'' 3"
    by code_simp
  have "transform_spec ''Hello, World!'' (sint (3 :: c_int)) = ''Khoor, Zruog!''"
    by code_simp
  with C9_nonneg_key_refines_spec [OF nonneg range] nonneg range show ?thesis
    by simp
qed

text \<open>
  Under the same conditions a letter keeps its case, and a key and the key 26 above it
  encrypt alike.
\<close>

lemma islower_int: "islower c \<longleftrightarrow> 97 \<le> (of_char c :: int) \<and> (of_char c :: int) \<le> 122"
proof -
  have "(of_char c :: int) = int (of_char c)" by (rule of_nat_of_char [symmetric])
  then show ?thesis unfolding islower_def by auto
qed

lemma isupper_int: "isupper c \<longleftrightarrow> 65 \<le> (of_char c :: int) \<and> (of_char c :: int) \<le> 90"
proof -
  have "(of_char c :: int) = int (of_char c)" by (rule of_nat_of_char [symmetric])
  then show ?thesis unfolding isupper_def by auto
qed

lemma nonneg_key_same_case:
  assumes "isalpha c" and "0 \<le> sint key"
    and "of_char c - (if islower c then 97 else 65) + sint key \<le> INT_MAX"
  shows "islower (pushed_char key c) = islower c \<and> isupper (pushed_char key c) = isupper c"
proof -
  define b :: int where "b = (if islower c then 97 else 65)"
  define r :: int where "r = (of_char c - b + sint key) mod 26"
  have r: "0 \<le> r" "r < 26" by (simp_all add: r_def)
  have "pushed_char key c = char_of (r + b)"
    using pushed_char_nonneg_key [OF assms] by (simp add: spec_shifted_eq r_def b_def)
  moreover have "(of_char (char_of (r + b)) :: int) = r + b"
    using r by (auto simp add: b_def)
  ultimately have v: "(of_char (pushed_char key c) :: int) = r + b"
    by simp
  show ?thesis
    using assms(1) r unfolding isalpha_def islower_int isupper_int v
    by (auto simp add: b_def islower_int)
qed

lemma nonneg_key_period:
  assumes "0 \<le> sint key" and "sint key \<le> INT_MAX - 51"
  shows "encryptCaesarCipher message (key + 26) = encryptCaesarCipher message key"
proof -
  have s26: "sint (key + 26) = sint key + 26"
  proof -
    have "- (2 ^ 31) \<le> sint key + 26" and "sint key + 26 < 2 ^ 31"
      using assms by (simp_all add: INT_MAX_def)
    then have "signed_take_bit 31 (sint key + 26) = sint key + 26"
      by (rule signed_take_bit_int_eq_self)
    then show ?thesis
      by (simp add: sint_word_add)
  qed
  have "pushed_char (key + 26) c = pushed_char key c" for c
  proof (cases "isalpha c")
    case True
    have off: "of_char c - (if islower c then 97 else 65) \<le> (25::int)"
      using letter_offset [OF True] by simp
    have "pushed_char (key + 26) c = char_of (spec_shifted c (sint (key + 26)))"
      using True assms off by (intro pushed_char_nonneg_key) (simp_all add: s26 INT_MAX_def)
    moreover have "pushed_char key c = char_of (spec_shifted c (sint key))"
      using True assms off by (intro pushed_char_nonneg_key) (simp_all add: INT_MAX_def)
    moreover have "spec_shifted c (sint key + 26) = spec_shifted c (sint key)"
      by (simp add: spec_shifted_eq add.assoc [symmetric])
    ultimately show ?thesis by (simp add: s26)
  next
    case False
    then show ?thesis by (simp add: pushed_char_non_alpha)
  qed
  then show ?thesis by (simp add: encryptCaesarCipher_map)
qed

section \<open>Negative keys\<close>

text \<open>
  With a negative key the sum \<^verbatim>\<open>c - base + key\<close> can be negative, the operator \<^verbatim>\<open>%\<close>
  then returns a negative remainder, and the character pushed lies below the base of the
  alphabet. The function has no second modulo that would bring the remainder back into
  the range from \<open>0\<close> to \<open>25\<close>.
\<close>

text \<open>
  Claim C4, as amended. Encrypting the message \<^verbatim>\<open>Shift\<close> with the key \<open>-1\<close> yields exactly
  \<^verbatim>\<open>Rghes\<close>: every letter moves back by one, and no letter of this message crosses the
  start of the alphabet.
\<close>

theorem C4_Shift_minus_one:
  "encryptCaesarCipher ''Shift'' (- 1) = ''Rghes''"
  by code_simp

text \<open>The result is not the \<^verbatim>\<open>Rghzs\<close> of the claim as it was stated.\<close>

theorem C4_Shift_minus_one_counterexample:
  "encryptCaesarCipher ''Shift'' (- 1) \<noteq> ''Rghzs''"
  by code_simp

text \<open>The formula of the specification gives the same result at this input.\<close>

lemma transform_spec_Shift_minus_one:
  "transform_spec ''Shift'' (- 1) = ''Rghes''"
  by code_simp

text \<open>
  Claim C1. Every ASCII letter \<open>c\<close> of the message is emitted as the letter
  \<^verbatim>\<open>((c - base + key) mod 26 + 26) mod 26 + base\<close>, for every key. The code does not do so
  for a negative key: for the message \<^verbatim>\<open>a\<close> and the key \<open>-1\<close> it returns the character
  \<open>0x60\<close>, where the formula gives \<^verbatim>\<open>z\<close>.
\<close>

theorem C1_negative_key_not_normalized:
  "encryptCaesarCipher ''a'' (- 1) = [CHR 0x60] \<and>
   transform_spec ''a'' (sint (- 1 :: c_int)) = ''z''"
  by code_simp

text \<open>
  Claim C2. A letter of the message is encrypted to a letter of the same case. The code
  does not do so for a negative key: for the message \<^verbatim>\<open>B\<close> and the key \<open>-3\<close> it returns
  a question mark, which is not a letter.
\<close>

theorem C2_negative_key_leaves_alphabet:
  "isupper (''B'' ! 0) \<and> encryptCaesarCipher ''B'' (- 3) = ''?'' \<and>
   \<not> isalpha (encryptCaesarCipher ''B'' (- 3) ! 0)"
  by code_simp

text \<open>
  Claim C3. Encrypting with the key \<open>K\<close> and then with the key \<open>-K\<close> restores the message.
  The code does not do so: the message \<^verbatim>\<open>z\<close> is encrypted with the key \<open>1\<close> to \<^verbatim>\<open>a\<close>,
  and \<^verbatim>\<open>a\<close> with the key \<open>-1\<close> to the character \<open>0x60\<close>.
\<close>

theorem C3_round_trip_fails:
  "encryptCaesarCipher ''z'' 1 = ''a'' \<and>
   encryptCaesarCipher (encryptCaesarCipher ''z'' 1) (- 1) = [CHR 0x60]"
  by code_simp

text \<open>
  Claim C7. The keys \<open>K\<close> and \<open>K + 26\<close> encrypt every message to the same result. The code
  does not do so when \<open>K\<close> is negative: the message \<^verbatim>\<open>y\<close> is encrypted with the key
  \<open>-26\<close> to the character \<open>0x5F\<close> and with the key \<open>0\<close> to itself.
\<close>

theorem C7_period_fails_across_zero:
  "encryptCaesarCipher ''y'' (- 26) = [CHR 0x5F] \<and>
   encryptCaesarCipher ''y'' (- 26 + 26) = ''y''"
  by code_simp

section \<open>A key that is not an integer\<close>

text \<open>
  For every input, \<^verbatim>\<open>main\<close> writes nothing to standard error, returns \<open>0\<close> and prints the
  message encrypted with the value that \<^verbatim>\<open>key\<close> holds after the extraction.
\<close>

lemma main_outcome:
  "main key0 input =
     \<lparr>std_out = ''Enter the message you want to encrypt: '' @ ''Enter the key value: '' @
        ''Encrypted message: '' @
        encryptCaesarCipher (fst (getline input)) (key_after_extraction key0 input) @ [newline],
      std_err = [], exit_status = 0\<rparr>"
proof -
  obtain message rest good where "getline input = (message, rest, good)"
    by (cases "getline input") auto
  then show ?thesis
    by (simp add: main_def key_after_extraction_def Let_def)
qed

text \<open>
  Claim C5, as amended. When the key token cannot be parsed as an integer, the program
  writes nothing to standard error, exits with status \<open>0\<close> and still performs the
  transformation: standard output holds the two prompts, then \<^verbatim>\<open>Encrypted message: \<close>,
  the message encrypted with the value that the extraction leaves in \<^verbatim>\<open>key\<close>, and a
  newline.
\<close>

theorem C5_unparsable_key_still_encrypts:
  assumes "key_token_unparsable input"
  shows "std_err (main key0 input) = [] \<and> exit_status (main key0 input) = 0 \<and>
         std_out (main key0 input) =
           ''Enter the message you want to encrypt: '' @ ''Enter the key value: '' @
           ''Encrypted message: '' @
           encryptCaesarCipher (fst (getline input)) (key_after_extraction key0 input) @
           [newline]"
  by (simp add: main_outcome)

text \<open>
  At a key token whose digits denote a value above \<^verbatim>\<open>INT_MAX\<close> the extraction fails and
  stores \<^verbatim>\<open>INT_MAX\<close>, and the message \<^verbatim>\<open>abc\<close> is printed as \<^verbatim>\<open>xIJ\<close>.
\<close>

theorem C5_unparsable_key_still_encrypts_witness:
  "key_token_unparsable (''abc'' @ [newline] @ ''2147483648'' @ [newline]) \<and>
   std_err (main 9 (''abc'' @ [newline] @ ''2147483648'' @ [newline])) = [] \<and>
   exit_status (main 9 (''abc'' @ [newline] @ ''2147483648'' @ [newline])) = 0 \<and>
   std_out (main 9 (''abc'' @ [newline] @ ''2147483648'' @ [newline])) =
     ''Enter the message you want to encrypt: Enter the key value: '' @
     ''Encrypted message: xIJ'' @ [newline]"
proof -
  have token: "key_token_unparsable (''abc'' @ [newline] @ ''2147483648'' @ [newline])"
    by code_simp
  have line: "fst (getline (''abc'' @ [newline] @ ''2147483648'' @ [newline])) = ''abc''"
    by code_simp
  have key: "key_after_extraction 9 (''abc'' @ [newline] @ ''2147483648'' @ [newline]) =
      2147483647"
    by code_simp
  have enc: "encryptCaesarCipher ''abc'' 2147483647 = ''xIJ''"
    by code_simp
  from C5_unparsable_key_still_encrypts [OF token, of 9] token line key enc show ?thesis
    by simp
qed

text \<open>
  The claim as it was stated fails: with the key token \<^verbatim>\<open>abc\<close> standard error stays
  empty, the exit status is \<open>0\<close>, and the line \<^verbatim>\<open>Encrypted message: Hello\<close> is printed.
\<close>

theorem C5_unparsable_key_counterexample:
  "key_token_unparsable (''Hello'' @ [newline] @ ''abc'' @ [newline]) \<and>
   std_err (main 7 (''Hello'' @ [newline] @ ''abc'' @ [newline])) = [] \<and>
   exit_status (main 7 (''Hello'' @ [newline] @ ''abc'' @ [newline])) = 0 \<and>
   std_out (main 7 (''Hello'' @ [newline] @ ''abc'' @ [newline])) =
     ''Enter the message you want to encrypt: Enter the key value: '' @
     ''Encrypted message: Hello'' @ [newline]"
  by code_simp

subsection \<open>The kinds of key token that cannot be parsed\<close>

text \<open>Every failure of the extraction makes the key token one that cannot be parsed.\<close>

lemma extraction_failure_unparsable:
  "snd (extract_int (fst (snd (getline input))) (snd (snd (getline input)))) \<Longrightarrow>
   key_token_unparsable input"
  by (cases "getline input") (simp add: key_token_unparsable_def)

text \<open>
  A token without a leading digit is one of them. The extraction then stores \<open>0\<close>, so
  the message is printed unchanged.
\<close>

lemma without_digits_stores_zero:
  assumes "key_token_without_digits input"
  shows "extract_int (fst (snd (getline input))) (snd (snd (getline input))) = (Some 0, True)"
  using assms
  by (auto simp add: key_token_without_digits_def extract_int_def Let_def split: prod.splits)

lemma without_digits_unparsable:
  "key_token_without_digits input \<Longrightarrow> key_token_unparsable input"
  using without_digits_stores_zero [of input]
  by (simp add: extraction_failure_unparsable)

lemma without_digits_prints_message:
  assumes "key_token_without_digits input"
  shows "std_out (main key0 input) =
           ''Enter the message you want to encrypt: '' @ ''Enter the key value: '' @
           ''Encrypted message: '' @ fst (getline input) @ [newline]"
proof -
  obtain message rest good where g: "getline input = (message, rest, good)"
    by (cases "getline input") auto
  with without_digits_stores_zero [OF assms] have "key_after_extraction key0 input = 0"
    by (simp add: key_after_extraction_def)
  then show ?thesis
    by (simp add: main_outcome encryptCaesarCipher_zero)
qed

text \<open>
  A token with a decimal point is another: the extraction succeeds on the digits before
  the point, and the message \<^verbatim>\<open>abc\<close> is printed as \<^verbatim>\<open>bcd\<close>.
\<close>

lemma decimal_point_token:
  "key_token_unparsable (''abc'' @ [newline] @ ''1.5'' @ [newline]) \<and>
   extract_int (''1.5'' @ [newline]) True = (Some 1, False) \<and>
   std_out (main 9 (''abc'' @ [newline] @ ''1.5'' @ [newline])) =
     ''Enter the message you want to encrypt: Enter the key value: '' @
     ''Encrypted message: bcd'' @ [newline]"
  by code_simp

text \<open>
  When the input ends before a key token, nothing is stored and the message is encrypted
  with the value that \<^verbatim>\<open>key\<close> held before.
\<close>

lemma missing_token:
  "key_token_unparsable (''abc'' @ [newline]) \<and>
   key_after_extraction 2 (''abc'' @ [newline]) = 2 \<and>
   std_out (main 2 (''abc'' @ [newline])) =
     ''Enter the message you want to encrypt: Enter the key value: '' @
     ''Encrypted message: cde'' @ [newline]"
  by code_simp

text \<open>A key token that is an integer numeral within the range of \<^verbatim>\<open>int\<close> can be parsed.\<close>

lemma integer_token_parsable:
  "\<not> key_token_unparsable (''abc'' @ [newline] @ '' -12'' @ [newline]) \<and>
   key_after_extraction 9 (''abc'' @ [newline] @ '' -12'' @ [newline]) = - 12"
  by code_simp

end
